theory Spec2Isabelle
  imports Main "HOL-Library.Word"
begin

section \<open>Strings and the two regular expressions of the nickname check\<close>

text \<open>
  A JavaScript string is a sequence of UTF-16 code units; \<^verbatim>\<open>nickname.length\<close> counts
  code units and a regular expression without the \<^verbatim>\<open>u\<close> flag matches code units.
\<close>

type_synonym code_unit = "16 word"
type_synonym jsstring = "code_unit list"

definition js :: "string \<Rightarrow> jsstring" where
  "js cs = map of_char cs"

text \<open>
  The fragment of regular expressions \<^verbatim>\<open>username.ts\<close> uses: a pattern is a sequence of
  the assertions \<^verbatim>\<open>^\<close> and \<^verbatim>\<open>$\<close> (no \<^verbatim>\<open>m\<close> flag: start and end of the whole input), a
  character class of ranges, and a class under \<^verbatim>\<open>+\<close>.
\<close>

type_synonym char_class = "(code_unit \<times> code_unit) list"

datatype re_node = AssertStart | AssertEnd | Class char_class | ClassPlus char_class

definition in_class :: "char_class \<Rightarrow> code_unit \<Rightarrow> bool" where
  "in_class ranges c = list_ex (\<lambda>(lo, hi). lo \<le> c \<and> c \<le> hi) ranges"

text \<open>
  \<open>match_here r at0 cs\<close>: the pattern \<open>r\<close> matches a prefix of the rest \<open>cs\<close> of the
  input; \<open>at0\<close> says that no code unit has been consumed or skipped yet. A backtracking
  matcher, as the language's own.
\<close>

fun match_here :: "re_node list \<Rightarrow> bool \<Rightarrow> jsstring \<Rightarrow> bool" where
  "match_here [] at0 cs = True"
| "match_here (AssertStart # r) at0 cs = (at0 \<and> match_here r at0 cs)"
| "match_here (AssertEnd # r) at0 cs = (cs = [] \<and> match_here r at0 cs)"
| "match_here (Class k # r) at0 [] = False"
| "match_here (Class k # r) at0 (c # cs) = (in_class k c \<and> match_here r False cs)"
| "match_here (ClassPlus k # r) at0 [] = False"
| "match_here (ClassPlus k # r) at0 (c # cs) =
     (in_class k c \<and> (match_here (ClassPlus k # r) False cs \<or> match_here r False cs))"

text \<open>\<^verbatim>\<open>RegExp.prototype.test\<close> without the \<^verbatim>\<open>g\<close> and \<^verbatim>\<open>y\<close> flags: a match may start at
  any index, from 0 up to the length.\<close>

fun search :: "re_node list \<Rightarrow> bool \<Rightarrow> jsstring \<Rightarrow> bool" where
  "search r at0 [] = match_here r at0 []"
| "search r at0 (c # cs) = (match_here r at0 (c # cs) \<or> search r False cs)"

definition regexp_test :: "re_node list \<Rightarrow> jsstring \<Rightarrow> bool" where
  "regexp_test r s = search r True s"

text \<open>\<^verbatim>\<open>[0-9a-z_]\<close> and \<^verbatim>\<open>[a-z_]\<close>, by code unit.\<close>

definition class_0_9_a_z_underscore :: char_class where
  "class_0_9_a_z_underscore = [(0x30, 0x39), (0x61, 0x7A), (0x5F, 0x5F)]"

definition class_a_z_underscore :: char_class where
  "class_a_z_underscore = [(0x61, 0x7A), (0x5F, 0x5F)]"

text \<open>\<^verbatim>\<open>/^[0-9a-z_]+$/\<close>\<close>

definition re_all_nickname_chars :: "re_node list" where
  "re_all_nickname_chars = [AssertStart, ClassPlus class_0_9_a_z_underscore, AssertEnd]"

text \<open>\<^verbatim>\<open>/^[a-z_]/\<close>\<close>

definition re_starting_char :: "re_node list" where
  "re_starting_char = [AssertStart, Class class_a_z_underscore]"


section \<open>Enumerations of \<^verbatim>\<open>usernameEnums\<close> and \<^verbatim>\<open>types/Username\<close>\<close>

text \<open>
  The enumerations are imported by \<^verbatim>\<open>username.ts\<close>; their members are the ones the
  file names (for \<open>UsernameReservationError\<close> these are also the ones the specification
  lists). \<open>ReserveUsernameError\<close> has the two members the reducer distinguishes: its final
  \<^verbatim>\<open>else { throw missingCaseError(error) }\<close> is the exhaustiveness check over them, and
  the model keeps that branch.
\<close>

datatype UsernameReservationState = Closed | Open | Reserving | Confirming

datatype UsernameReservationError =
    General
  | NotEnoughCharacters
  | TooManyCharacters
  | CheckCharacters
  | CheckStartingCharacter
  | UsernameNotAvailable

datatype UsernameEditState = Editing | Deleting

datatype ReserveUsernameError = Unprocessable | Conflict


section \<open>Helpers: \<^verbatim>\<open>getNicknameInvalidError\<close>\<close>

text \<open>
  \<^verbatim>\<open>getMinNickname()\<close> and \<^verbatim>\<open>getMaxNickname()\<close> live in \<^verbatim>\<open>util/Username\<close>; their values
  are the parameters \<open>minN\<close> and \<open>maxN\<close>. The argument is \<^verbatim>\<open>string | undefined\<close>;
  \<^verbatim>\<open>!nickname\<close> holds for \<^verbatim>\<open>undefined\<close> and for the empty string.
\<close>

definition getNicknameInvalidError ::
    "int \<Rightarrow> int \<Rightarrow> jsstring option \<Rightarrow> UsernameReservationError option" where
  "getNicknameInvalidError minN maxN nickname =
     (case nickname of
        None \<Rightarrow> None
      | Some n \<Rightarrow>
          if n = [] then None
          else if int (length n) < minN then Some NotEnoughCharacters
          else if \<not> regexp_test re_all_nickname_chars n then Some CheckCharacters
          else if \<not> regexp_test re_starting_char n then Some CheckStartingCharacter
          else if int (length n) > maxN then Some TooManyCharacters
          else None)"


section \<open>The character rules in the specification's words\<close>

definition is_0_9_a_z_underscore :: "code_unit \<Rightarrow> bool" where
  "is_0_9_a_z_underscore c =
     ((0x30 \<le> c \<and> c \<le> 0x39) \<or> (0x61 \<le> c \<and> c \<le> 0x7A) \<or> c = 0x5F)"

definition is_a_z_underscore :: "code_unit \<Rightarrow> bool" where
  "is_a_z_underscore c = ((0x61 \<le> c \<and> c \<le> 0x7A) \<or> c = 0x5F)"


section \<open>State and actions of the username duck\<close>

text \<open>
  An \<^verbatim>\<open>AbortController\<close> is an object compared by identity (\<^verbatim>\<open>!==\<close>): it is modelled
  by its address. The reservation value (\<^verbatim>\<open>UsernameReservationType\<close>) is opaque to the
  duck: a type parameter. An absent or \<^verbatim>\<open>undefined\<close> field is \<open>None\<close>.
\<close>

type_synonym AbortController = nat

record 'r UsernameReservationStateType =
  state :: UsernameReservationState
  reservation :: "'r option"
  error :: "UsernameReservationError option"
  abortController :: "AbortController option"

record 'r UsernameStateType =
  editState :: UsernameEditState
  usernameReservation :: "'r UsernameReservationStateType"

text \<open>\<^verbatim>\<open>ReserveUsernameResultType\<close>: \<^verbatim>\<open>{ ok: true, reservation }\<close> or
  \<^verbatim>\<open>{ ok: false, error }\<close>.\<close>

datatype 'r ReserveUsernameResultType = Ok 'r | NotOk ReserveUsernameError

datatype ToastType = FailedToDeleteUsername

text \<open>
  The actions that reach the reducer. The promise middleware turns an action whose
  payload is a promise into \<^verbatim>\<open>_PENDING\<close>, then \<^verbatim>\<open>_FULFILLED\<close> or \<^verbatim>\<open>_REJECTED\<close>, each
  carrying the \<^verbatim>\<open>meta\<close> of the original; the payload of a fulfilled reserve is
  \<^verbatim>\<open>ReserveUsernameResultType | undefined\<close>. The root reducer hands every action of the
  application to every duck: \<open>SHOW_TOAST\<close> is the toast duck's action that
  \<^verbatim>\<open>deleteUsername\<close> dispatches, \<open>OtherAction\<close> any other foreign action.
\<close>

datatype 'r UsernameActionType =
    SET_USERNAME_EDIT_STATE UsernameEditState
  | OPEN_USERNAME_RESERVATION_MODAL
  | CLOSE_USERNAME_RESERVATION_MODAL
  | SET_USERNAME_RESERVATION_ERROR "UsernameReservationError option"
  | RESERVE_USERNAME_PENDING AbortController
  | RESERVE_USERNAME_FULFILLED "'r ReserveUsernameResultType option" AbortController
  | RESERVE_USERNAME_REJECTED AbortController
  | CONFIRM_USERNAME_PENDING
  | CONFIRM_USERNAME_FULFILLED
  | CONFIRM_USERNAME_REJECTED
  | DELETE_USERNAME_PENDING
  | DELETE_USERNAME_FULFILLED
  | DELETE_USERNAME_REJECTED
  | SHOW_TOAST ToastType
  | OtherAction

text \<open>Action creators.\<close>

definition setUsernameEditState :: "UsernameEditState \<Rightarrow> 'r UsernameActionType" where
  "setUsernameEditState e = SET_USERNAME_EDIT_STATE e"

definition openUsernameReservationModal :: "'r UsernameActionType" where
  "openUsernameReservationModal = OPEN_USERNAME_RESERVATION_MODAL"

definition closeUsernameReservationModal :: "'r UsernameActionType" where
  "closeUsernameReservationModal = CLOSE_USERNAME_RESERVATION_MODAL"

definition setUsernameReservationError ::
    "UsernameReservationError option \<Rightarrow> 'r UsernameActionType" where
  "setUsernameReservationError e = SET_USERNAME_RESERVATION_ERROR e"

definition showToast :: "ToastType \<Rightarrow> 'r UsernameActionType" where
  "showToast t = SHOW_TOAST t"


section \<open>Exceptions and \<^verbatim>\<open>assertDev\<close>\<close>

datatype exn =
    AssertionError string
  | MissingCaseError ReserveUsernameError
  | TypeError string

text \<open>
  Modelled from the spec: \<^verbatim>\<open>assertDev\<close> of \<^verbatim>\<open>util/assert\<close>, which is not among the
  sources. The specification: "A defensive assertion fires (in non-production builds)
  when an invariant is violated [...]; in production this degrades to setting a generic
  error rather than crashing." So a failed assertion throws unless the build is a
  production build, where execution goes on with the next statement.
\<close>

definition assertDev :: "bool \<Rightarrow> bool \<Rightarrow> string \<Rightarrow> exn + unit" where
  "assertDev production condition message =
     (if condition then Inr ()
      else if production then Inr ()
      else Inl (AssertionError message))"

text \<open>Sequencing: the statements after a call that may throw.\<close>

definition andThen :: "exn + unit \<Rightarrow> exn + 'a \<Rightarrow> exn + 'a" where
  "andThen first rest = (case first of Inl e \<Rightarrow> Inl e | Inr _ \<Rightarrow> rest)"


section \<open>The reducer\<close>

definition getEmptyState :: "'r UsernameStateType" where
  "getEmptyState =
     \<lparr>editState = Editing,
      usernameReservation =
        \<lparr>state = Closed, reservation = None, error = None, abortController = None\<rparr>\<rparr>"

text \<open>
  The reducer returns the next state and the controllers it called \<^verbatim>\<open>abort()\<close> on (its
  one side effect), or the exception it throws. \<open>production\<close> is the build, for
  \<open>assertDev\<close>. Reading \<^verbatim>\<open>payload.ok\<close> of an \<^verbatim>\<open>undefined\<close> payload is a \<^verbatim>\<open>TypeError\<close>.
\<close>

fun reducer ::
    "bool \<Rightarrow> 'r UsernameStateType \<Rightarrow> 'r UsernameActionType
       \<Rightarrow> exn + ('r UsernameStateType \<times> AbortController list)" where
  "reducer production s (SET_USERNAME_EDIT_STATE e) = Inr (s\<lparr>editState := e\<rparr>, [])"
| "reducer production s OPEN_USERNAME_RESERVATION_MODAL =
     Inr (s\<lparr>usernameReservation :=
            \<lparr>state = Open, reservation = None, error = None, abortController = None\<rparr>\<rparr>, [])"
| "reducer production s CLOSE_USERNAME_RESERVATION_MODAL =
     Inr (s\<lparr>usernameReservation :=
            \<lparr>state = Closed, reservation = None, error = None, abortController = None\<rparr>\<rparr>, [])"
| "reducer production s (SET_USERNAME_RESERVATION_ERROR e) =
     Inr (s\<lparr>usernameReservation :=
            (usernameReservation s)\<lparr>error := e, reservation := None\<rparr>\<rparr>, [])"
| "reducer production s (RESERVE_USERNAME_PENDING meta) =
     Inr (s\<lparr>usernameReservation :=
            \<lparr>state = Reserving, reservation = None, error = None,
             abortController = Some meta\<rparr>\<rparr>,
          (case abortController (usernameReservation s) of None \<Rightarrow> [] | Some c \<Rightarrow> [c]))"
| "reducer production s (RESERVE_USERNAME_FULFILLED payload meta) =
     (if Some meta \<noteq> abortController (usernameReservation s) then Inr (s, [])
      else
        andThen (assertDev production (state (usernameReservation s) = Reserving)
                   ''Must be reserving before resolving reservation'')
       (andThen (assertDev production (payload \<noteq> None)
                   ''Payload can be undefined only when aborted'')
          (case payload of
             None \<Rightarrow> Inl (TypeError ''Cannot read properties of undefined'')
           | Some (NotOk err) \<Rightarrow>
               (if err = Unprocessable then
                  Inr (s\<lparr>usernameReservation :=
                         \<lparr>state = Open, reservation = None, error = Some CheckCharacters,
                          abortController = None\<rparr>\<rparr>, [])
                else if err = Conflict then
                  Inr (s\<lparr>usernameReservation :=
                         \<lparr>state = Open, reservation = None,
                          error = Some UsernameNotAvailable, abortController = None\<rparr>\<rparr>, [])
                else Inl (MissingCaseError err))
           | Some (Ok r) \<Rightarrow>
               Inr (s\<lparr>usernameReservation :=
                      \<lparr>state = Open, reservation = Some r, error = None,
                       abortController = None\<rparr>\<rparr>, []))))"
| "reducer production s (RESERVE_USERNAME_REJECTED meta) =
     (if Some meta \<noteq> abortController (usernameReservation s) then Inr (s, [])
      else
        andThen (assertDev production (state (usernameReservation s) = Reserving)
                   ''Must be reserving before rejecting reservation'')
          (Inr (s\<lparr>usernameReservation :=
                  \<lparr>state = Open, reservation = None, error = Some General,
                   abortController = None\<rparr>\<rparr>, [])))"
| "reducer production s CONFIRM_USERNAME_PENDING =
     andThen (assertDev production (state (usernameReservation s) = Open)
                ''Must be open before confirmation'')
       (Inr (s\<lparr>usernameReservation :=
               \<lparr>state = Confirming, reservation = reservation (usernameReservation s),
                error = None, abortController = None\<rparr>\<rparr>, []))"
| "reducer production s CONFIRM_USERNAME_FULFILLED =
     andThen (assertDev production (state (usernameReservation s) = Confirming)
                ''Must be reserving before resolving confirmation'')
       (Inr (s\<lparr>usernameReservation :=
               \<lparr>state = Closed, reservation = None, error = None,
                abortController = None\<rparr>\<rparr>, []))"
| "reducer production s CONFIRM_USERNAME_REJECTED =
     andThen (assertDev production (state (usernameReservation s) = Confirming)
                ''Must be reserving before rejecting reservation'')
       (Inr (s\<lparr>usernameReservation :=
               \<lparr>state = Open, reservation = None, error = Some General,
                abortController = None\<rparr>\<rparr>, []))"
| "reducer production s DELETE_USERNAME_PENDING = Inr (s\<lparr>editState := Deleting\<rparr>, [])"
| "reducer production s DELETE_USERNAME_FULFILLED = Inr (s\<lparr>editState := Editing\<rparr>, [])"
| "reducer production s DELETE_USERNAME_REJECTED =
     andThen (assertDev production False ''Should never reject'') (Inr (s, []))"
| "reducer production s (SHOW_TOAST t) = Inr (s, [])"
| "reducer production s OtherAction = Inr (s, [])"

text \<open>
  The store: a dispatched action replaces the state by the reducer's result; when the
  reducer throws, the state stays as it was.
\<close>

definition store_dispatch ::
    "bool \<Rightarrow> 'r UsernameStateType \<Rightarrow> 'r UsernameActionType \<Rightarrow> 'r UsernameStateType" where
  "store_dispatch production s a =
     (case reducer production s a of Inl e \<Rightarrow> s | Inr (s', aborts) \<Rightarrow> s')"

fun run_actions ::
    "bool \<Rightarrow> 'r UsernameStateType \<Rightarrow> 'r UsernameActionType list \<Rightarrow> 'r UsernameStateType" where
  "run_actions production s [] = s"
| "run_actions production s (a # as) = run_actions production (store_dispatch production s a) as"

fun is_reserve_pending :: "'r UsernameActionType \<Rightarrow> bool" where
  "is_reserve_pending (RESERVE_USERNAME_PENDING meta) = True"
| "is_reserve_pending a = False"


section \<open>Promises, remote calls and the thunks\<close>

text \<open>How a promise settles; the reducer never reads the reason of a rejection.\<close>

datatype 'a settled = Fulfilled 'a | Rejected

text \<open>The calls made to the username service, with their arguments.\<close>

datatype 'r network_call =
    ReserveUsernameCall "jsstring option" jsstring AbortController
  | ConfirmUsernameCall 'r
  | DeleteUsernameCall jsstring

text \<open>What one run of a thunk does: the actions it hands to the store, in order, the
  remote calls it issues, and the exception that leaves the thunk, if any.\<close>

record 'r effects =
  dispatched :: "'r UsernameActionType list"
  calls :: "'r network_call list"
  thrown :: "exn option"

text \<open>
  The promise middleware, for the three promise actions of the duck: \<^verbatim>\<open>_PENDING\<close> at
  once, then \<^verbatim>\<open>_FULFILLED\<close> with the value or \<^verbatim>\<open>_REJECTED\<close> when the payload settles.
  The middleware registers the completion after it has dispatched \<^verbatim>\<open>_PENDING\<close>: when the
  reducer throws on the pending action, the exception leaves the thunk and no completion
  is dispatched. Only \<^verbatim>\<open>CONFIRM_USERNAME_PENDING\<close> can throw (its assertion); the pending
  action is dispatched in the state \<open>s\<close> the thunk has just read.
\<close>

definition reserve_promise_actions ::
    "AbortController \<Rightarrow> 'r ReserveUsernameResultType option settled
       \<Rightarrow> 'r UsernameActionType list" where
  "reserve_promise_actions meta payload =
     [RESERVE_USERNAME_PENDING meta,
      (case payload of
         Fulfilled v \<Rightarrow> RESERVE_USERNAME_FULFILLED v meta
       | Rejected \<Rightarrow> RESERVE_USERNAME_REJECTED meta)]"

definition confirm_promise_actions ::
    "bool \<Rightarrow> 'r UsernameStateType \<Rightarrow> unit settled
       \<Rightarrow> 'r UsernameActionType list \<times> exn option" where
  "confirm_promise_actions production s payload =
     (case reducer production s CONFIRM_USERNAME_PENDING of
        Inl e \<Rightarrow> ([CONFIRM_USERNAME_PENDING], Some e)
      | Inr accepted \<Rightarrow>
          ([CONFIRM_USERNAME_PENDING,
            (case payload of
               Fulfilled v \<Rightarrow> CONFIRM_USERNAME_FULFILLED
             | Rejected \<Rightarrow> CONFIRM_USERNAME_REJECTED)], None))"

definition delete_promise_actions ::
    "'r UsernameActionType list \<Rightarrow> unit settled \<Rightarrow> 'r UsernameActionType list" where
  "delete_promise_actions during payload =
     [DELETE_USERNAME_PENDING] @ during @
     [case payload of
        Fulfilled v \<Rightarrow> DELETE_USERNAME_FULFILLED
      | Rejected \<Rightarrow> DELETE_USERNAME_REJECTED]"

text \<open>
  Modelled from the spec: \<^verbatim>\<open>sleep\<close> of \<^verbatim>\<open>util/sleep\<close>, which is not among the sources:
  "a cooperative delay interruptible by cancellation". The promise rejects when the
  signal is aborted during the delay and resolves otherwise; \<open>aborted\<close> is the set of
  controllers aborted by the end of the delay. Time itself is not modelled.
\<close>

definition sleep :: "AbortController set \<Rightarrow> AbortController \<Rightarrow> unit settled" where
  "sleep aborted abortSignal = (if abortSignal \<in> aborted then Rejected else Fulfilled ())"

text \<open>
  \<^verbatim>\<open>run\<close> of \<^verbatim>\<open>reserveUsername\<close>: the remote calls it issues and how its promise settles.
  \<open>doReserveUsername\<close> is the injected service function, given by how its promise
  settles for the arguments of the call.
\<close>

definition reserve_run ::
    "(jsstring option \<Rightarrow> jsstring \<Rightarrow> AbortController \<Rightarrow> 'r ReserveUsernameResultType settled)
       \<Rightarrow> AbortController set \<Rightarrow> jsstring option \<Rightarrow> jsstring \<Rightarrow> AbortController
       \<Rightarrow> 'r network_call list \<times> 'r ReserveUsernameResultType option settled" where
  "reserve_run doReserveUsername aborted username nickname abortSignal =
     (case sleep aborted abortSignal of
        Rejected \<Rightarrow> ([], Fulfilled None)
      | Fulfilled u \<Rightarrow>
          ([ReserveUsernameCall username nickname abortSignal],
           (case doReserveUsername username nickname abortSignal of
              Fulfilled result \<Rightarrow> Fulfilled (Some result)
            | Rejected \<Rightarrow> Rejected)))"

text \<open>
  \<^verbatim>\<open>reserveUsername(nickname, options)\<close>. \<open>isValidNickname\<close> (of \<^verbatim>\<open>util/Username\<close>) is a
  parameter, as are the username of \<^verbatim>\<open>getMe(getState())\<close> and the controller that
  \<^verbatim>\<open>new AbortController()\<close> allocates. The members of \<open>UsernameReservationError\<close> are
  non-empty strings, so \<^verbatim>\<open>if (error)\<close> asks whether an error was found.
\<close>

definition reserveUsername ::
    "bool \<Rightarrow> (jsstring \<Rightarrow> bool) \<Rightarrow> int \<Rightarrow> int
       \<Rightarrow> (jsstring option \<Rightarrow> jsstring \<Rightarrow> AbortController \<Rightarrow> 'r ReserveUsernameResultType settled)
       \<Rightarrow> AbortController set \<Rightarrow> AbortController \<Rightarrow> jsstring option \<Rightarrow> jsstring
       \<Rightarrow> 'r effects" where
  "reserveUsername production isValidNickname minN maxN doReserveUsername aborted
       newAbortController username nickname =
     (if nickname = [] then \<lparr>dispatched = [], calls = [], thrown = None\<rparr>
      else if \<not> isValidNickname nickname then
        (case getNicknameInvalidError minN maxN (Some nickname) of
           Some e \<Rightarrow>
             \<lparr>dispatched = [setUsernameReservationError (Some e)], calls = [],
              thrown = None\<rparr>
         | None \<Rightarrow>
             (case assertDev production False ''This should not happen'' of
                Inl x \<Rightarrow> \<lparr>dispatched = [], calls = [], thrown = Some x\<rparr>
              | Inr u \<Rightarrow>
                  \<lparr>dispatched = [setUsernameReservationError (Some General)], calls = [],
                   thrown = None\<rparr>))
      else
        (case reserve_run doReserveUsername aborted username nickname newAbortController of
           (issued, payload) \<Rightarrow>
             \<lparr>dispatched = reserve_promise_actions newAbortController payload,
              calls = issued, thrown = None\<rparr>))"

text \<open>\<^verbatim>\<open>confirmUsername(options)\<close>, run on the state \<open>s\<close> that \<^verbatim>\<open>getState().username\<close>
  returns. The remote call is made while the action is built.\<close>

definition confirmUsername ::
    "bool \<Rightarrow> ('r \<Rightarrow> unit settled) \<Rightarrow> 'r UsernameStateType \<Rightarrow> 'r effects" where
  "confirmUsername production doConfirmUsername s =
     (case reservation (usernameReservation s) of
        None \<Rightarrow>
          (case assertDev production False ''This should not happen'' of
             Inl x \<Rightarrow> \<lparr>dispatched = [], calls = [], thrown = Some x\<rparr>
           | Inr u \<Rightarrow>
               \<lparr>dispatched = [setUsernameReservationError (Some General)], calls = [],
                thrown = None\<rparr>)
      | Some r \<Rightarrow>
          (case confirm_promise_actions production s (doConfirmUsername r) of
             (actions, x) \<Rightarrow>
               \<lparr>dispatched = actions, calls = [ConfirmUsernameCall r], thrown = x\<rparr>))"

text \<open>\<^verbatim>\<open>run\<close> of \<^verbatim>\<open>deleteUsername\<close>: the actions it dispatches itself and how its promise
  settles.\<close>

definition delete_run ::
    "(jsstring \<Rightarrow> unit settled) \<Rightarrow> jsstring \<Rightarrow> 'r UsernameActionType list \<times> unit settled" where
  "delete_run doDeleteUsername username =
     (case doDeleteUsername username of
        Fulfilled u \<Rightarrow> ([], Fulfilled ())
      | Rejected \<Rightarrow> ([showToast FailedToDeleteUsername], Fulfilled ()))"

text \<open>\<^verbatim>\<open>deleteUsername(options)\<close>; \<open>me_username\<close> is \<^verbatim>\<open>getMe(getState()).username\<close> and
  \<open>defaultUsername\<close> the option used for testing. \<^verbatim>\<open>??\<close> takes the right side only for
  an absent left side; \<^verbatim>\<open>!username\<close> holds for an absent and for an empty username.\<close>

definition deleteUsername ::
    "(jsstring \<Rightarrow> unit settled) \<Rightarrow> jsstring option \<Rightarrow> jsstring option \<Rightarrow> 'r effects" where
  "deleteUsername doDeleteUsername me_username defaultUsername =
     (case (case me_username of Some u \<Rightarrow> Some u | None \<Rightarrow> defaultUsername) of
        None \<Rightarrow> \<lparr>dispatched = [], calls = [], thrown = None\<rparr>
      | Some username \<Rightarrow>
          if username = [] then \<lparr>dispatched = [], calls = [], thrown = None\<rparr>
          else
            (case delete_run doDeleteUsername username of
               (during, payload) \<Rightarrow>
                 \<lparr>dispatched = delete_promise_actions during payload,
                  calls = [DeleteUsernameCall username], thrown = None\<rparr>))"


section \<open>Invariants of the reservation state\<close>

text \<open>A token is stored only while reserving.\<close>

definition token_only_reserving :: "'r UsernameReservationStateType \<Rightarrow> bool" where
  "token_only_reserving ur = (abortController ur = None \<or> state ur = Reserving)"

text \<open>A reservation and an error are never stored together.\<close>

definition reservation_or_error :: "'r UsernameReservationStateType \<Rightarrow> bool" where
  "reservation_or_error ur = (reservation ur = None \<or> error ur = None)"


section \<open>Collaborators and states of the examples\<close>

text \<open>A validity check that agrees with the rules for a minimum of 3 and a maximum of 32,
  and service functions that always succeed or always fail; reservations are numbers.\<close>

definition valid_by_rules :: "jsstring \<Rightarrow> bool" where
  "valid_by_rules n = (getNicknameInvalidError 3 32 (Some n) = None)"

definition reserve_succeeds ::
    "jsstring option \<Rightarrow> jsstring \<Rightarrow> AbortController \<Rightarrow> nat ReserveUsernameResultType settled" where
  "reserve_succeeds username nickname abortSignal = Fulfilled (Ok 7)"

definition confirm_succeeds :: "nat \<Rightarrow> unit settled" where
  "confirm_succeeds r = Fulfilled ()"

definition confirm_fails :: "nat \<Rightarrow> unit settled" where
  "confirm_fails r = Rejected"

definition delete_fails :: "jsstring \<Rightarrow> unit settled" where
  "delete_fails username = Rejected"

definition open_state :: "nat UsernameStateType" where
  "open_state =
     \<lparr>editState = Editing,
      usernameReservation =
        \<lparr>state = Open, reservation = None, error = None, abortController = None\<rparr>\<rparr>"

definition reserved_state :: "nat UsernameStateType" where
  "reserved_state =
     \<lparr>editState = Editing,
      usernameReservation =
        \<lparr>state = Open, reservation = Some 7, error = None, abortController = None\<rparr>\<rparr>"

definition reserving_state :: "nat UsernameStateType" where
  "reserving_state =
     \<lparr>editState = Editing,
      usernameReservation =
        \<lparr>state = Reserving, reservation = None, error = None,
         abortController = Some 1\<rparr>\<rparr>"


section \<open>The regular expressions decide the character rules\<close>

lemma in_class_0_9_a_z_underscore:
  "in_class class_0_9_a_z_underscore c = is_0_9_a_z_underscore c"
  by (auto simp: in_class_def class_0_9_a_z_underscore_def is_0_9_a_z_underscore_def)

lemma in_class_a_z_underscore:
  "in_class class_a_z_underscore c = is_a_z_underscore c"
  by (auto simp: in_class_def class_a_z_underscore_def is_a_z_underscore_def)

lemma match_plus_end:
  "match_here [ClassPlus k, AssertEnd] b cs = (cs \<noteq> [] \<and> list_all (in_class k) cs)"
proof (induction cs arbitrary: b)
  case Nil
  show ?case by simp
next
  case (Cons c cs)
  show ?case
  proof (cases cs)
    case Nil
    then show ?thesis by simp
  next
    case (Cons d ds)
    with Cons.IH [of False] show ?thesis by auto
  qed
qed

lemma search_start_later: "search (AssertStart # r) False cs = False"
  by (induction cs) simp_all

lemma test_all_nickname_chars:
  "regexp_test re_all_nickname_chars s = (s \<noteq> [] \<and> list_all is_0_9_a_z_underscore s)"
proof (cases s)
  case Nil
  then show ?thesis by (simp add: regexp_test_def re_all_nickname_chars_def)
next
  case (Cons c cs)
  have "regexp_test re_all_nickname_chars s =
          match_here [ClassPlus class_0_9_a_z_underscore, AssertEnd] True s"
    using Cons by (simp add: regexp_test_def re_all_nickname_chars_def search_start_later)
  also have "\<dots> = (s \<noteq> [] \<and> list_all (in_class class_0_9_a_z_underscore) s)"
    by (rule match_plus_end)
  finally show ?thesis
    by (simp add: in_class_0_9_a_z_underscore [abs_def])
qed

lemma test_starting_char:
  "regexp_test re_starting_char s = (s \<noteq> [] \<and> is_a_z_underscore (hd s))"
  by (cases s)
     (simp_all add: regexp_test_def re_starting_char_def search_start_later
        in_class_a_z_underscore)


section \<open>Validation order\<close>

text \<open>
  C3. For every non-empty nickname, \<^verbatim>\<open>getNicknameInvalidError\<close> returns the first
  applicable error in this order: \<open>NotEnoughCharacters\<close> when the length is below the
  minimum; else \<open>CheckCharacters\<close> when some code unit is outside \<^verbatim>\<open>[0-9a-z_]\<close>; else
  \<open>CheckStartingCharacter\<close> when the first code unit is not in \<^verbatim>\<open>[a-z_]\<close>; else
  \<open>TooManyCharacters\<close> when the length exceeds the maximum; else no error. In particular
  a nickname longer than the maximum (and not shorter than the minimum) that contains an
  illegal code unit yields \<open>CheckCharacters\<close>, not \<open>TooManyCharacters\<close>.
\<close>

theorem getNicknameInvalidError_precedence:
  "nickname \<noteq> [] \<Longrightarrow>
     getNicknameInvalidError minN maxN (Some nickname) =
       (if int (length nickname) < minN then Some NotEnoughCharacters
        else if \<not> list_all is_0_9_a_z_underscore nickname then Some CheckCharacters
        else if \<not> is_a_z_underscore (hd nickname) then Some CheckStartingCharacter
        else if maxN < int (length nickname) then Some TooManyCharacters
        else None)
     \<and> (minN \<le> int (length nickname) \<and> maxN < int (length nickname)
          \<and> \<not> list_all is_0_9_a_z_underscore nickname
        \<longrightarrow> getNicknameInvalidError minN maxN (Some nickname) = Some CheckCharacters)"
  by (simp add: getNicknameInvalidError_def test_all_nickname_chars test_starting_char)

theorem getNicknameInvalidError_precedence_witness:
  "js ''abcdefghijklmnopqrstuvwxyz0123456!'' \<noteq> []
   \<and> getNicknameInvalidError 3 32 (Some (js ''abcdefghijklmnopqrstuvwxyz0123456!''))
       = Some CheckCharacters
   \<and> getNicknameInvalidError 3 32 (Some (js ''abcdefghijklmnopqrstuvwxyz01234567''))
       = Some TooManyCharacters"
  using getNicknameInvalidError_precedence [of "js ''abcdefghijklmnopqrstuvwxyz0123456!''" 3 32]
        getNicknameInvalidError_precedence [of "js ''abcdefghijklmnopqrstuvwxyz01234567''" 3 32]
  by (simp add: js_def is_0_9_a_z_underscore_def is_a_z_underscore_def)


section \<open>The token stored in the state\<close>

lemmas reducer_unfold = store_dispatch_def andThen_def assertDev_def

text \<open>Only \<^verbatim>\<open>RESERVE_USERNAME_PENDING\<close> stores a token; every other action keeps the stored
  one or drops it.\<close>

lemma token_after_dispatch:
  "\<not> is_reserve_pending a \<Longrightarrow>
     abortController (usernameReservation (store_dispatch production s a)) = None
     \<or> abortController (usernameReservation (store_dispatch production s a))
         = abortController (usernameReservation s)"
  by (cases a)
     (auto simp: reducer_unfold split: option.splits ReserveUsernameResultType.splits)

lemma token_after_run:
  "\<not> list_ex is_reserve_pending acts \<Longrightarrow>
     abortController (usernameReservation (run_actions production s acts)) = None
     \<or> abortController (usernameReservation (run_actions production s acts))
         = abortController (usernameReservation s)"
proof (induction acts arbitrary: s)
  case Nil
  show ?case by simp
next
  case (Cons a acts)
  from Cons.prems have a: "\<not> is_reserve_pending a"
    and rest: "\<not> list_ex is_reserve_pending acts"
    by simp_all
  from Cons.IH [OF rest, of "store_dispatch production s a"]
       token_after_dispatch [OF a, of production s]
  show ?case by auto
qed

lemma token_after_pending:
  "abortController
     (usernameReservation (store_dispatch production s (RESERVE_USERNAME_PENDING latest)))
   = Some latest"
  by (simp add: store_dispatch_def)

text \<open>
  C1. A reserve completion (fulfilled or rejected) whose \<^verbatim>\<open>meta.abortController\<close> is not
  the controller stored in the state returns the state unchanged and aborts nothing.
  Hence, once the attempt \<open>latest\<close> has been dispatched and as long as no newer attempt
  is (the actions \<open>later\<close> hold no \<^verbatim>\<open>RESERVE_USERNAME_PENDING\<close>), the completion of any
  other attempt \<open>older\<close> changes nothing: only the most recently dispatched attempt can
  be reflected in the state.
\<close>

theorem stale_reserve_completion_ignored:
  "(Some meta \<noteq> abortController (usernameReservation s) \<longrightarrow>
      reducer production s (RESERVE_USERNAME_FULFILLED payload meta) = Inr (s, [])
      \<and> reducer production s (RESERVE_USERNAME_REJECTED meta) = Inr (s, []))
   \<and> (older \<noteq> latest \<and> \<not> list_ex is_reserve_pending later
       \<and> s' = run_actions production
                (store_dispatch production s (RESERVE_USERNAME_PENDING latest)) later \<longrightarrow>
      reducer production s' (RESERVE_USERNAME_FULFILLED payload older) = Inr (s', [])
      \<and> reducer production s' (RESERVE_USERNAME_REJECTED older) = Inr (s', []))"
proof (intro conjI impI)
  assume h: "older \<noteq> latest \<and> \<not> list_ex is_reserve_pending later
       \<and> s' = run_actions production
                (store_dispatch production s (RESERVE_USERNAME_PENDING latest)) later"
  then have "abortController (usernameReservation s') = None
     \<or> abortController (usernameReservation s') = Some latest"
    using token_after_run [of later production
            "store_dispatch production s (RESERVE_USERNAME_PENDING latest)"]
    by (simp add: token_after_pending)
  with h have ne: "Some older \<noteq> abortController (usernameReservation s')" by auto
  from ne show "reducer production s' (RESERVE_USERNAME_FULFILLED payload older) = Inr (s', [])"
    by simp
  from ne show "reducer production s' (RESERVE_USERNAME_REJECTED older) = Inr (s', [])"
    by simp
qed simp_all

theorem stale_reserve_completion_ignored_witness:
  "Some (1::nat) \<noteq> Some 2
   \<and> \<not> list_ex is_reserve_pending
         [SET_USERNAME_RESERVATION_ERROR (Some CheckCharacters) :: nat UsernameActionType]
   \<and> run_actions False (store_dispatch False getEmptyState (RESERVE_USERNAME_PENDING 2))
         [SET_USERNAME_RESERVATION_ERROR (Some CheckCharacters)]
       = \<lparr>editState = Editing,
          usernameReservation =
            \<lparr>state = Reserving, reservation = None, error = Some CheckCharacters,
             abortController = Some 2\<rparr>\<rparr>
   \<and> reducer False
         \<lparr>editState = Editing,
          usernameReservation =
            \<lparr>state = Reserving, reservation = None, error = Some CheckCharacters,
             abortController = Some 2\<rparr>\<rparr>
         (RESERVE_USERNAME_FULFILLED (Some (Ok (7::nat))) 1)
       = Inr (\<lparr>editState = Editing,
               usernameReservation =
                 \<lparr>state = Reserving, reservation = None, error = Some CheckCharacters,
                  abortController = Some 2\<rparr>\<rparr>, [])
   \<and> reducer False
         \<lparr>editState = Editing,
          usernameReservation =
            \<lparr>state = Reserving, reservation = None, error = Some CheckCharacters,
             abortController = Some 2\<rparr>\<rparr>
         (RESERVE_USERNAME_REJECTED 1 :: nat UsernameActionType)
       = Inr (\<lparr>editState = Editing,
               usernameReservation =
                 \<lparr>state = Reserving, reservation = None, error = Some CheckCharacters,
                  abortController = Some 2\<rparr>\<rparr>, [])"
  using stale_reserve_completion_ignored
    [where meta = 1 and older = 1 and latest = 2 and production = False
       and payload = "Some (Ok (7::nat))"
       and later = "[SET_USERNAME_RESERVATION_ERROR (Some CheckCharacters)]"
       and s = getEmptyState
       and s' = "\<lparr>editState = Editing,
          usernameReservation =
            \<lparr>state = Reserving, reservation = None, error = Some CheckCharacters,
             abortController = Some 2\<rparr>\<rparr>"]
  by (simp add: store_dispatch_def getEmptyState_def)


section \<open>Invariants of every reachable state\<close>

lemma token_only_reserving_dispatch:
  "token_only_reserving (usernameReservation s) \<Longrightarrow>
     token_only_reserving (usernameReservation (store_dispatch production s a))"
  by (cases a)
     (auto simp: token_only_reserving_def reducer_unfold
           split: option.splits ReserveUsernameResultType.splits)

lemma token_only_reserving_run:
  "token_only_reserving (usernameReservation s) \<Longrightarrow>
     token_only_reserving (usernameReservation (run_actions production s acts))"
  by (induction acts arbitrary: s) (simp_all add: token_only_reserving_dispatch)

lemma token_only_reserving_reachable:
  "token_only_reserving (usernameReservation (run_actions production getEmptyState acts))"
  by (rule token_only_reserving_run) (simp add: token_only_reserving_def getEmptyState_def)

lemma reservation_or_error_dispatch:
  "reservation_or_error (usernameReservation s) \<Longrightarrow>
     reservation_or_error (usernameReservation (store_dispatch production s a))"
  by (cases a)
     (auto simp: reservation_or_error_def reducer_unfold
           split: option.splits ReserveUsernameResultType.splits)

lemma reservation_or_error_run:
  "reservation_or_error (usernameReservation s) \<Longrightarrow>
     reservation_or_error (usernameReservation (run_actions production s acts))"
  by (induction acts arbitrary: s) (simp_all add: reservation_or_error_dispatch)

lemma reservation_or_error_reachable:
  "reservation_or_error (usernameReservation (run_actions production getEmptyState acts))"
  by (rule reservation_or_error_run) (simp add: reservation_or_error_def getEmptyState_def)


section \<open>Completion of a reserve attempt\<close>

lemma matched_completion_reserving:
  "abortController (usernameReservation s) = Some meta \<Longrightarrow>
   production \<or> state (usernameReservation s) = Reserving \<Longrightarrow>
     reducer production s (RESERVE_USERNAME_FULFILLED (Some (Ok r)) meta)
       = Inr (s\<lparr>usernameReservation :=
                \<lparr>state = Open, reservation = Some r, error = None, abortController = None\<rparr>\<rparr>, [])
     \<and> reducer production s (RESERVE_USERNAME_FULFILLED (Some (NotOk Unprocessable)) meta)
       = Inr (s\<lparr>usernameReservation :=
                \<lparr>state = Open, reservation = None, error = Some CheckCharacters, abortController = None\<rparr>\<rparr>, [])
     \<and> reducer production s (RESERVE_USERNAME_FULFILLED (Some (NotOk Conflict)) meta)
       = Inr (s\<lparr>usernameReservation :=
                \<lparr>state = Open, reservation = None, error = Some UsernameNotAvailable, abortController = None\<rparr>\<rparr>, [])
     \<and> reducer production s (RESERVE_USERNAME_REJECTED meta)
       = Inr (s\<lparr>usernameReservation :=
                \<lparr>state = Open, reservation = None, error = Some General, abortController = None\<rparr>\<rparr>, [])"
  by (auto simp: andThen_def assertDev_def)

text \<open>The exhaustiveness branch of the reducer is never taken.\<close>

lemma missing_case_unreachable: "reducer production s a \<noteq> Inl (MissingCaseError err)"
proof (cases a)
  case (RESERVE_USERNAME_FULFILLED payload meta)
  show ?thesis
  proof (cases payload)
    case None
    with RESERVE_USERNAME_FULFILLED show ?thesis
      by (simp add: andThen_def assertDev_def)
  next
    case (Some result)
    show ?thesis
    proof (cases result)
      case (Ok r)
      with Some RESERVE_USERNAME_FULFILLED show ?thesis
        by (simp add: andThen_def assertDev_def)
    next
      case (NotOk e)
      with Some RESERVE_USERNAME_FULFILLED show ?thesis
        by (cases e) (simp_all add: andThen_def assertDev_def)
    qed
  qed
qed (simp_all add: andThen_def assertDev_def)

text \<open>
  C2. In every state reachable from the empty state, a reserve completion whose token is
  the stored one maps as follows: a fulfilled \<^verbatim>\<open>{ ok: true, reservation }\<close> gives \<open>Open\<close>
  with that reservation and no error; \<^verbatim>\<open>{ ok: false, error: Unprocessable }\<close> gives
  \<open>Open\<close> with \<open>CheckCharacters\<close>; \<^verbatim>\<open>{ ok: false, error: Conflict }\<close> gives \<open>Open\<close> with
  \<open>UsernameNotAvailable\<close>; any other failure (the promise rejects) gives \<open>Open\<close> with
  \<open>General\<close>. The rest of the state is kept and nothing is aborted.
\<close>

theorem matched_reserve_outcome:
  "s = run_actions production getEmptyState acts \<Longrightarrow>
   abortController (usernameReservation s) = Some meta \<Longrightarrow>
     reducer production s (RESERVE_USERNAME_FULFILLED (Some (Ok r)) meta)
       = Inr (s\<lparr>usernameReservation :=
                \<lparr>state = Open, reservation = Some r, error = None, abortController = None\<rparr>\<rparr>, [])
     \<and> reducer production s (RESERVE_USERNAME_FULFILLED (Some (NotOk Unprocessable)) meta)
       = Inr (s\<lparr>usernameReservation :=
                \<lparr>state = Open, reservation = None, error = Some CheckCharacters, abortController = None\<rparr>\<rparr>, [])
     \<and> reducer production s (RESERVE_USERNAME_FULFILLED (Some (NotOk Conflict)) meta)
       = Inr (s\<lparr>usernameReservation :=
                \<lparr>state = Open, reservation = None, error = Some UsernameNotAvailable, abortController = None\<rparr>\<rparr>, [])
     \<and> reducer production s (RESERVE_USERNAME_REJECTED meta)
       = Inr (s\<lparr>usernameReservation :=
                \<lparr>state = Open, reservation = None, error = Some General, abortController = None\<rparr>\<rparr>, [])"
proof -
  assume reach: "s = run_actions production getEmptyState acts"
    and tok: "abortController (usernameReservation s) = Some meta"
  have "token_only_reserving (usernameReservation s)"
    unfolding reach by (rule token_only_reserving_reachable)
  with tok have "state (usernameReservation s) = Reserving"
    by (simp add: token_only_reserving_def)
  then have "production \<or> state (usernameReservation s) = Reserving" by simp
  with tok show ?thesis by (rule matched_completion_reserving)
qed

theorem matched_reserve_outcome_witness:
  "reserving_state
     = run_actions False getEmptyState
         [OPEN_USERNAME_RESERVATION_MODAL, RESERVE_USERNAME_PENDING 1]
   \<and> abortController (usernameReservation reserving_state) = Some 1
   \<and> reducer False reserving_state (RESERVE_USERNAME_FULFILLED (Some (Ok 7)) 1)
       = Inr (reserved_state, [])
   \<and> reducer False reserving_state (RESERVE_USERNAME_FULFILLED (Some (NotOk Unprocessable)) 1)
       = Inr (reserving_state\<lparr>usernameReservation :=
                \<lparr>state = Open, reservation = None, error = Some CheckCharacters, abortController = None\<rparr>\<rparr>, [])
   \<and> reducer False reserving_state (RESERVE_USERNAME_FULFILLED (Some (NotOk Conflict)) 1)
       = Inr (reserving_state\<lparr>usernameReservation :=
                \<lparr>state = Open, reservation = None, error = Some UsernameNotAvailable, abortController = None\<rparr>\<rparr>, [])
   \<and> reducer False reserving_state (RESERVE_USERNAME_REJECTED 1)
       = Inr (reserving_state\<lparr>usernameReservation :=
                \<lparr>state = Open, reservation = None, error = Some General, abortController = None\<rparr>\<rparr>, [])"
  using matched_reserve_outcome
    [where s = reserving_state and production = False and meta = 1 and r = 7
       and acts = "[OPEN_USERNAME_RESERVATION_MODAL, RESERVE_USERNAME_PENDING 1]"]
  by (simp add: reserving_state_def reserved_state_def getEmptyState_def store_dispatch_def)


section \<open>Reservation and error exclude each other\<close>

lemma matched_completion_exclusive:
  "abortController (usernameReservation s) = Some meta \<Longrightarrow>
   a = RESERVE_USERNAME_FULFILLED payload meta \<or> a = RESERVE_USERNAME_REJECTED meta \<Longrightarrow>
   reducer production s a = Inr (s', aborts) \<Longrightarrow>
     (reservation (usernameReservation s') \<noteq> None \<and> error (usernameReservation s') = None)
     \<or> (reservation (usernameReservation s') = None
         \<and> error (usernameReservation s') \<noteq> None)"
  by (auto simp: andThen_def assertDev_def
           split: option.splits ReserveUsernameResultType.splits if_splits)

text \<open>
  C8. In every state reached from the empty state by any sequence of actions, the
  reservation and the error of \<open>usernameReservation\<close> are not both set. In particular
  \<^verbatim>\<open>SET_USERNAME_RESERVATION_ERROR\<close> stores the error and clears the reservation, and a
  reserve completion whose token is the stored one, when the reducer returns, leaves
  either a reservation and no error or an error and no reservation.
\<close>

theorem reservation_error_exclusive:
  "(reservation (usernameReservation (run_actions production getEmptyState acts)) = None
      \<or> error (usernameReservation (run_actions production getEmptyState acts)) = None)
   \<and> reservation (usernameReservation
         (store_dispatch production s (SET_USERNAME_RESERVATION_ERROR e))) = None
   \<and> error (usernameReservation
         (store_dispatch production s (SET_USERNAME_RESERVATION_ERROR e))) = e
   \<and> (abortController (usernameReservation s) = Some meta
        \<and> (a = RESERVE_USERNAME_FULFILLED payload meta \<or> a = RESERVE_USERNAME_REJECTED meta)
        \<and> reducer production s a = Inr (s', aborts) \<longrightarrow>
          (reservation (usernameReservation s') \<noteq> None
             \<and> error (usernameReservation s') = None)
          \<or> (reservation (usernameReservation s') = None
             \<and> error (usernameReservation s') \<noteq> None))"
proof (intro conjI impI)
  show "reservation (usernameReservation (run_actions production getEmptyState acts)) = None
      \<or> error (usernameReservation (run_actions production getEmptyState acts)) = None"
    using reservation_or_error_reachable [of production acts]
    by (simp add: reservation_or_error_def)
next
  assume "abortController (usernameReservation s) = Some meta
        \<and> (a = RESERVE_USERNAME_FULFILLED payload meta \<or> a = RESERVE_USERNAME_REJECTED meta)
        \<and> reducer production s a = Inr (s', aborts)"
  then show "(reservation (usernameReservation s') \<noteq> None
             \<and> error (usernameReservation s') = None)
          \<or> (reservation (usernameReservation s') = None
             \<and> error (usernameReservation s') \<noteq> None)"
    using matched_completion_exclusive [of s meta a payload production s' aborts] by blast
qed (simp_all add: store_dispatch_def)

theorem reservation_error_exclusive_witness:
  "run_actions False getEmptyState
       [OPEN_USERNAME_RESERVATION_MODAL, RESERVE_USERNAME_PENDING 1,
        RESERVE_USERNAME_FULFILLED (Some (Ok 7)) 1]
     = reserved_state
   \<and> reservation (usernameReservation reserved_state) = Some 7
   \<and> error (usernameReservation reserved_state) = None
   \<and> reservation (usernameReservation
         (store_dispatch False reserved_state
            (SET_USERNAME_RESERVATION_ERROR (Some TooManyCharacters)))) = None
   \<and> error (usernameReservation
         (store_dispatch False reserved_state
            (SET_USERNAME_RESERVATION_ERROR (Some TooManyCharacters))))
       = Some TooManyCharacters
   \<and> abortController (usernameReservation reserving_state) = Some 1
   \<and> reducer False reserving_state (RESERVE_USERNAME_FULFILLED (Some (Ok 7)) 1)
       = Inr (reserved_state, [])"
  using reservation_error_exclusive
    [where production = False and s = reserved_state
       and e = "Some TooManyCharacters"
       and acts = "[OPEN_USERNAME_RESERVATION_MODAL, RESERVE_USERNAME_PENDING 1,
                    RESERVE_USERNAME_FULFILLED (Some (Ok 7)) 1]"]
    reservation_error_exclusive
    [where production = False and s = reserving_state and meta = 1
       and payload = "Some (Ok 7)" and a = "RESERVE_USERNAME_FULFILLED (Some (Ok 7)) 1"
       and s' = reserved_state and aborts = "[]"]
  by (simp add: reserving_state_def reserved_state_def getEmptyState_def reducer_unfold)


section \<open>Completion of a confirm attempt\<close>

lemma confirm_completion_reducer:
  "production \<or> state (usernameReservation s) = Confirming \<Longrightarrow>
     reducer production s CONFIRM_USERNAME_FULFILLED
       = Inr (s\<lparr>usernameReservation :=
                \<lparr>state = Closed, reservation = None, error = None,
                 abortController = None\<rparr>\<rparr>, [])
     \<and> reducer production s CONFIRM_USERNAME_REJECTED
       = Inr (s\<lparr>usernameReservation :=
                \<lparr>state = Open, reservation = None, error = Some General,
                 abortController = None\<rparr>\<rparr>, [])"
  by (auto simp: andThen_def assertDev_def)

lemma confirm_pending_then_confirming:
  "production \<or> state (usernameReservation s) = Open \<Longrightarrow>
     reducer production s CONFIRM_USERNAME_PENDING
       = Inr (s\<lparr>usernameReservation :=
                \<lparr>state = Confirming, reservation = reservation (usernameReservation s),
                 error = None, abortController = None\<rparr>\<rparr>, [])"
  by (auto simp: andThen_def assertDev_def)

lemma confirm_actions_accepted:
  "production \<or> state (usernameReservation s) = Open \<Longrightarrow>
     confirm_promise_actions production s payload
       = ([CONFIRM_USERNAME_PENDING,
           (case payload of
              Fulfilled v \<Rightarrow> CONFIRM_USERNAME_FULFILLED
            | Rejected \<Rightarrow> CONFIRM_USERNAME_REJECTED)], None)"
  by (auto simp: confirm_promise_actions_def andThen_def assertDev_def)

lemma confirm_with_reservation:
  "reservation (usernameReservation s) = Some r \<Longrightarrow>
   production \<or> state (usernameReservation s) = Open \<Longrightarrow>
     confirmUsername production doConfirmUsername s
       = \<lparr>dispatched =
            [CONFIRM_USERNAME_PENDING,
             (case doConfirmUsername r of
                Fulfilled v \<Rightarrow> CONFIRM_USERNAME_FULFILLED
              | Rejected \<Rightarrow> CONFIRM_USERNAME_REJECTED)],
          calls = [ConfirmUsernameCall r], thrown = None\<rparr>"
  by (simp add: confirmUsername_def confirm_actions_accepted)

lemma confirm_attempt_end:
  "production \<or> state (usernameReservation s) = Open \<Longrightarrow>
     usernameReservation
       (run_actions production s
          [CONFIRM_USERNAME_PENDING,
           (case payload of
              Fulfilled v \<Rightarrow> CONFIRM_USERNAME_FULFILLED
            | Rejected \<Rightarrow> CONFIRM_USERNAME_REJECTED)])
     = (case payload of
          Fulfilled u \<Rightarrow>
            \<lparr>state = Closed, reservation = None, error = None, abortController = None\<rparr>
        | Rejected \<Rightarrow>
            \<lparr>state = Open, reservation = None, error = Some General,
             abortController = None\<rparr>)"
proof -
  assume pre: "production \<or> state (usernameReservation s) = Open"
  let ?s1 = "s\<lparr>usernameReservation :=
                \<lparr>state = Confirming, reservation = reservation (usernameReservation s),
                 error = None, abortController = None\<rparr>\<rparr>"
  have pend: "store_dispatch production s CONFIRM_USERNAME_PENDING = ?s1"
    unfolding store_dispatch_def confirm_pending_then_confirming [OF pre] by simp
  have "production \<or> state (usernameReservation ?s1) = Confirming" by simp
  from confirm_completion_reducer [OF this]
  have fulfilled: "store_dispatch production ?s1 CONFIRM_USERNAME_FULFILLED
                = ?s1\<lparr>usernameReservation :=
                       \<lparr>state = Closed, reservation = None, error = None,
                        abortController = None\<rparr>\<rparr>"
    and rejected: "store_dispatch production ?s1 CONFIRM_USERNAME_REJECTED
                = ?s1\<lparr>usernameReservation :=
                       \<lparr>state = Open, reservation = None, error = Some General,
                        abortController = None\<rparr>\<rparr>"
    unfolding store_dispatch_def by simp_all
  show ?thesis
    by (cases payload) (simp_all add: pend fulfilled rejected)
qed

text \<open>In a build that is not a production build the assertions of the three confirm
  branches throw when the state is not the asserted one, and the state stays as it is.\<close>

lemma confirm_completion_asserts:
  "\<not> production \<Longrightarrow> state (usernameReservation s) \<noteq> Confirming \<Longrightarrow>
     reducer production s CONFIRM_USERNAME_FULFILLED
       = Inl (AssertionError ''Must be reserving before resolving confirmation'')
     \<and> reducer production s CONFIRM_USERNAME_REJECTED
       = Inl (AssertionError ''Must be reserving before rejecting reservation'')
     \<and> store_dispatch production s CONFIRM_USERNAME_FULFILLED = s
     \<and> store_dispatch production s CONFIRM_USERNAME_REJECTED = s"
  by (simp add: store_dispatch_def andThen_def assertDev_def)

lemma confirm_start_asserts:
  "reservation (usernameReservation s) = Some r \<Longrightarrow>
   \<not> production \<Longrightarrow> state (usernameReservation s) \<noteq> Open \<Longrightarrow>
     confirmUsername production doConfirmUsername s
       = \<lparr>dispatched = [CONFIRM_USERNAME_PENDING], calls = [ConfirmUsernameCall r],
          thrown = Some (AssertionError ''Must be open before confirmation'')\<rparr>
     \<and> store_dispatch production s CONFIRM_USERNAME_PENDING = s"
  by (simp add: confirmUsername_def confirm_promise_actions_def store_dispatch_def
        andThen_def assertDev_def)

text \<open>
  C7, as the code has it. A confirm completion handled while the state is \<open>Confirming\<close>
  (in a production build: in any state) gives \<open>Closed\<close> with no error and no reservation
  when the promise is fulfilled, and \<open>Open\<close> with error \<open>General\<close> when it is rejected.
  A confirm attempt started with a reservation in state \<open>Open\<close> (in a production build:
  in any state) issues the remote call, dispatches the pending action and the
  completion, and with these two reduced ends in \<open>Closed\<close> on success and in \<open>Open\<close>
  with \<open>General\<close> on failure. In a build that is not a production build, a completion
  handled in a state that is not \<open>Confirming\<close> throws the reducer's assertion and leaves
  the state as it is; and an attempt started with a reservation in a state that is not
  \<open>Open\<close> issues the remote call, but its pending action throws the assertion, the state
  stays as it is and no completion is dispatched.
\<close>

theorem confirm_outcome:
  "(production \<or> state (usernameReservation s) = Confirming \<longrightarrow>
      reducer production s CONFIRM_USERNAME_FULFILLED
        = Inr (s\<lparr>usernameReservation :=
                 \<lparr>state = Closed, reservation = None, error = None,
                  abortController = None\<rparr>\<rparr>, [])
      \<and> reducer production s CONFIRM_USERNAME_REJECTED
        = Inr (s\<lparr>usernameReservation :=
                 \<lparr>state = Open, reservation = None, error = Some General,
                  abortController = None\<rparr>\<rparr>, []))
   \<and> (reservation (usernameReservation s) = Some r
        \<and> (production \<or> state (usernameReservation s) = Open) \<longrightarrow>
      confirmUsername production doConfirmUsername s
        = \<lparr>dispatched =
             [CONFIRM_USERNAME_PENDING,
              (case doConfirmUsername r of
                 Fulfilled v \<Rightarrow> CONFIRM_USERNAME_FULFILLED
               | Rejected \<Rightarrow> CONFIRM_USERNAME_REJECTED)],
           calls = [ConfirmUsernameCall r], thrown = None\<rparr>
      \<and> usernameReservation
           (run_actions production s
              (dispatched (confirmUsername production doConfirmUsername s)))
        = (case doConfirmUsername r of
             Fulfilled u \<Rightarrow>
               \<lparr>state = Closed, reservation = None, error = None, abortController = None\<rparr>
           | Rejected \<Rightarrow>
               \<lparr>state = Open, reservation = None, error = Some General,
                abortController = None\<rparr>))
   \<and> (\<not> production \<and> state (usernameReservation s) \<noteq> Confirming \<longrightarrow>
      reducer production s CONFIRM_USERNAME_FULFILLED
        = Inl (AssertionError ''Must be reserving before resolving confirmation'')
      \<and> reducer production s CONFIRM_USERNAME_REJECTED
        = Inl (AssertionError ''Must be reserving before rejecting reservation'')
      \<and> store_dispatch production s CONFIRM_USERNAME_FULFILLED = s
      \<and> store_dispatch production s CONFIRM_USERNAME_REJECTED = s)
   \<and> (reservation (usernameReservation s) = Some r
        \<and> \<not> production \<and> state (usernameReservation s) \<noteq> Open \<longrightarrow>
      confirmUsername production doConfirmUsername s
        = \<lparr>dispatched = [CONFIRM_USERNAME_PENDING], calls = [ConfirmUsernameCall r],
           thrown = Some (AssertionError ''Must be open before confirmation'')\<rparr>
      \<and> store_dispatch production s CONFIRM_USERNAME_PENDING = s)"
proof -
  have "usernameReservation
           (run_actions production s
              (dispatched (confirmUsername production doConfirmUsername s)))
        = (case doConfirmUsername r of
             Fulfilled u \<Rightarrow>
               \<lparr>state = Closed, reservation = None, error = None, abortController = None\<rparr>
           | Rejected \<Rightarrow>
               \<lparr>state = Open, reservation = None, error = Some General,
                abortController = None\<rparr>)"
    if "reservation (usernameReservation s) = Some r"
      and "production \<or> state (usernameReservation s) = Open"
    using that confirm_attempt_end [of production s "doConfirmUsername r"]
    by (simp add: confirm_with_reservation)
  then show ?thesis
    using confirm_completion_reducer [of production s]
          confirm_with_reservation [of s r production doConfirmUsername]
          confirm_completion_asserts [of production s]
          confirm_start_asserts [of s r production doConfirmUsername]
    by blast
qed

theorem confirm_outcome_witness:
  "state (usernameReservation
       (reserved_state\<lparr>usernameReservation :=
          \<lparr>state = Confirming, reservation = Some 7, error = None,
           abortController = None\<rparr>\<rparr>)) = Confirming
   \<and> reducer False
       (reserved_state\<lparr>usernameReservation :=
          \<lparr>state = Confirming, reservation = Some 7, error = None,
           abortController = None\<rparr>\<rparr>) CONFIRM_USERNAME_FULFILLED
       = Inr (\<lparr>editState = Editing,
               usernameReservation =
                 \<lparr>state = Closed, reservation = None, error = None,
                  abortController = None\<rparr>\<rparr>, [])
   \<and> reservation (usernameReservation reserved_state) = Some 7
   \<and> state (usernameReservation reserved_state) = Open
   \<and> confirmUsername False confirm_succeeds reserved_state
       = \<lparr>dispatched = [CONFIRM_USERNAME_PENDING, CONFIRM_USERNAME_FULFILLED],
          calls = [ConfirmUsernameCall 7], thrown = None\<rparr>
   \<and> usernameReservation
        (run_actions False reserved_state
           [CONFIRM_USERNAME_PENDING, CONFIRM_USERNAME_FULFILLED])
       = \<lparr>state = Closed, reservation = None, error = None, abortController = None\<rparr>
   \<and> confirmUsername False confirm_fails reserved_state
       = \<lparr>dispatched = [CONFIRM_USERNAME_PENDING, CONFIRM_USERNAME_REJECTED],
          calls = [ConfirmUsernameCall 7], thrown = None\<rparr>
   \<and> usernameReservation
        (run_actions False reserved_state
           [CONFIRM_USERNAME_PENDING, CONFIRM_USERNAME_REJECTED])
       = \<lparr>state = Open, reservation = None, error = Some General,
          abortController = None\<rparr>
   \<and> reducer False reserved_state CONFIRM_USERNAME_FULFILLED
       = Inl (AssertionError ''Must be reserving before resolving confirmation'')
   \<and> store_dispatch False reserved_state CONFIRM_USERNAME_REJECTED = reserved_state
   \<and> confirmUsername False confirm_succeeds
        (reserved_state\<lparr>usernameReservation :=
           \<lparr>state = Confirming, reservation = Some 7, error = None,
            abortController = None\<rparr>\<rparr>)
       = \<lparr>dispatched = [CONFIRM_USERNAME_PENDING], calls = [ConfirmUsernameCall 7],
          thrown = Some (AssertionError ''Must be open before confirmation'')\<rparr>"
  using confirm_outcome
    [where production = False and r = 7 and doConfirmUsername = confirm_succeeds
       and s = "reserved_state\<lparr>usernameReservation :=
          \<lparr>state = Confirming, reservation = Some 7, error = None,
           abortController = None\<rparr>\<rparr>"]
    confirm_outcome
    [where production = False and r = 7 and doConfirmUsername = confirm_succeeds
       and s = reserved_state]
    confirm_outcome
    [where production = False and r = 7 and doConfirmUsername = confirm_fails
       and s = reserved_state]
  by (simp add: reserved_state_def confirm_succeeds_def confirm_fails_def
        confirmUsername_def confirm_promise_actions_def reducer_unfold)

text \<open>
  In a build that is not a production build, from a state reached from the empty state
  (the modal opened, a reservation obtained): a confirm attempt that reaches the network
  and succeeds after the modal was closed and opened again leaves the state \<open>Open\<close>, not
  \<open>Closed\<close>; one that fails after the modal was closed leaves the state \<open>Closed\<close> with no
  error, not \<open>Open\<close> with \<open>General\<close>; and a second attempt started while the first is
  in flight issues its remote call and dispatches no completion at all.
\<close>

theorem confirm_outcome_counterexample:
  "run_actions False getEmptyState
       [OPEN_USERNAME_RESERVATION_MODAL, RESERVE_USERNAME_PENDING 1,
        RESERVE_USERNAME_FULFILLED (Some (Ok 7)) 1]
     = reserved_state
   \<and> confirmUsername False confirm_succeeds reserved_state
       = \<lparr>dispatched = [CONFIRM_USERNAME_PENDING, CONFIRM_USERNAME_FULFILLED],
          calls = [ConfirmUsernameCall 7], thrown = None\<rparr>
   \<and> usernameReservation
        (run_actions False reserved_state
           [CONFIRM_USERNAME_PENDING, CLOSE_USERNAME_RESERVATION_MODAL,
            OPEN_USERNAME_RESERVATION_MODAL, CONFIRM_USERNAME_FULFILLED])
       = \<lparr>state = Open, reservation = None, error = None, abortController = None\<rparr>
   \<and> confirmUsername False confirm_fails reserved_state
       = \<lparr>dispatched = [CONFIRM_USERNAME_PENDING, CONFIRM_USERNAME_REJECTED],
          calls = [ConfirmUsernameCall 7], thrown = None\<rparr>
   \<and> usernameReservation
        (run_actions False reserved_state
           [CONFIRM_USERNAME_PENDING, CLOSE_USERNAME_RESERVATION_MODAL,
            CONFIRM_USERNAME_REJECTED])
       = \<lparr>state = Closed, reservation = None, error = None, abortController = None\<rparr>
   \<and> confirmUsername False confirm_succeeds
        (store_dispatch False reserved_state CONFIRM_USERNAME_PENDING)
       = \<lparr>dispatched = [CONFIRM_USERNAME_PENDING], calls = [ConfirmUsernameCall 7],
          thrown = Some (AssertionError ''Must be open before confirmation'')\<rparr>
   \<and> state (usernameReservation
        (run_actions False (store_dispatch False reserved_state CONFIRM_USERNAME_PENDING)
           (dispatched
              (confirmUsername False confirm_succeeds
                 (store_dispatch False reserved_state CONFIRM_USERNAME_PENDING)))))
       = Confirming"
  by (simp add: getEmptyState_def reserved_state_def confirm_succeeds_def confirm_fails_def
        confirmUsername_def confirm_promise_actions_def reducer_unfold)


section \<open>\<^verbatim>\<open>reserveUsername\<close>: empty and invalid nicknames\<close>

lemma reserve_empty:
  "reserveUsername production isValidNickname minN maxN doReserveUsername aborted
       newAbortController username []
     = \<lparr>dispatched = [], calls = [], thrown = None\<rparr>"
  by (simp add: reserveUsername_def)

lemma reserve_invalid_error:
  "nickname \<noteq> [] \<Longrightarrow> \<not> isValidNickname nickname \<Longrightarrow>
   getNicknameInvalidError minN maxN (Some nickname) = Some e \<Longrightarrow>
     reserveUsername production isValidNickname minN maxN doReserveUsername aborted
         newAbortController username nickname
       = \<lparr>dispatched = [SET_USERNAME_RESERVATION_ERROR (Some e)], calls = [],
          thrown = None\<rparr>"
  by (simp add: reserveUsername_def setUsernameReservationError_def)

lemma set_error_state:
  "usernameReservation (run_actions production s [SET_USERNAME_RESERVATION_ERROR e])
     = (usernameReservation s)\<lparr>error := e, reservation := None\<rparr>"
  by (simp add: store_dispatch_def)

lemma reserve_invalid_no_call:
  "nickname \<noteq> [] \<Longrightarrow> \<not> isValidNickname nickname \<Longrightarrow>
     calls (reserveUsername production isValidNickname minN maxN doReserveUsername aborted
              newAbortController username nickname) = []"
  by (cases "getNicknameInvalidError minN maxN (Some nickname)"; cases production)
     (simp_all add: reserveUsername_def assertDev_def)

text \<open>
  C5. \<^verbatim>\<open>reserveUsername\<close> with the empty nickname returns having dispatched nothing (no
  state change, no error) and called nothing. With a non-empty nickname that
  \<^verbatim>\<open>isValidNickname\<close> rejects, it dispatches the error that \<^verbatim>\<open>getNicknameInvalidError\<close>
  finds, which the reducer stores (clearing the reservation), and it makes no remote
  call, whatever the nickname that \<^verbatim>\<open>isValidNickname\<close> rejects.
\<close>

theorem reserve_empty_or_invalid:
  "reserveUsername production isValidNickname minN maxN doReserveUsername aborted
       newAbortController username []
     = \<lparr>dispatched = [], calls = [], thrown = None\<rparr>
   \<and> run_actions production s [] = s
   \<and> (nickname \<noteq> [] \<and> \<not> isValidNickname nickname
        \<and> getNicknameInvalidError minN maxN (Some nickname) = Some e \<longrightarrow>
      reserveUsername production isValidNickname minN maxN doReserveUsername aborted
          newAbortController username nickname
        = \<lparr>dispatched = [SET_USERNAME_RESERVATION_ERROR (Some e)], calls = [],
           thrown = None\<rparr>
      \<and> usernameReservation
           (run_actions production s [SET_USERNAME_RESERVATION_ERROR (Some e)])
        = (usernameReservation s)\<lparr>error := Some e, reservation := None\<rparr>)
   \<and> (nickname \<noteq> [] \<and> \<not> isValidNickname nickname \<longrightarrow>
      calls (reserveUsername production isValidNickname minN maxN doReserveUsername
               aborted newAbortController username nickname) = [])"
  using reserve_empty [of production isValidNickname minN maxN doReserveUsername aborted
          newAbortController username]
        reserve_invalid_error [of nickname isValidNickname minN maxN e production
          doReserveUsername aborted newAbortController username]
        set_error_state [of production s "Some e"]
        reserve_invalid_no_call [of nickname isValidNickname production minN maxN
          doReserveUsername aborted newAbortController username]
  by simp

lemma abc_bang_invalid:
  "js ''abc!'' \<noteq> []
   \<and> getNicknameInvalidError 3 32 (Some (js ''abc!'')) = Some CheckCharacters
   \<and> \<not> valid_by_rules (js ''abc!'')"
  by (simp add: valid_by_rules_def getNicknameInvalidError_def test_all_nickname_chars
        test_starting_char js_def is_0_9_a_z_underscore_def is_a_z_underscore_def)

theorem reserve_empty_or_invalid_witness:
  "js ''abc!'' \<noteq> []
   \<and> \<not> valid_by_rules (js ''abc!'')
   \<and> getNicknameInvalidError 3 32 (Some (js ''abc!'')) = Some CheckCharacters
   \<and> reserveUsername False valid_by_rules 3 32 reserve_succeeds {} 1 None []
       = \<lparr>dispatched = [], calls = [], thrown = None\<rparr>
   \<and> reserveUsername False valid_by_rules 3 32 reserve_succeeds {} 1 None (js ''abc!'')
       = \<lparr>dispatched = [SET_USERNAME_RESERVATION_ERROR (Some CheckCharacters)],
          calls = [], thrown = None\<rparr>
   \<and> usernameReservation
        (run_actions False reserved_state
           [SET_USERNAME_RESERVATION_ERROR (Some CheckCharacters)])
       = \<lparr>state = Open, reservation = None, error = Some CheckCharacters,
          abortController = None\<rparr>"
  using reserve_empty_or_invalid
    [where production = False and isValidNickname = valid_by_rules and minN = 3
       and maxN = 32 and doReserveUsername = reserve_succeeds and aborted = "{}"
       and newAbortController = 1 and username = None and nickname = "js ''abc!''"
       and e = CheckCharacters and s = reserved_state]
    abc_bang_invalid
  by (simp add: reserved_state_def)


section \<open>\<^verbatim>\<open>confirmUsername\<close> without a reservation\<close>

lemma confirm_none_production:
  "reservation (usernameReservation s) = None \<Longrightarrow>
     confirmUsername True doConfirmUsername s
       = \<lparr>dispatched = [SET_USERNAME_RESERVATION_ERROR (Some General)], calls = [],
          thrown = None\<rparr>"
  by (simp add: confirmUsername_def setUsernameReservationError_def assertDev_def)

lemma confirm_none_non_production:
  "reservation (usernameReservation s) = None \<Longrightarrow>
     confirmUsername False doConfirmUsername s
       = \<lparr>dispatched = [], calls = [],
          thrown = Some (AssertionError ''This should not happen'')\<rparr>"
  by (simp add: confirmUsername_def assertDev_def)

lemma confirm_call_needs_reservation:
  "c \<in> set (calls (confirmUsername production doConfirmUsername s)) \<Longrightarrow>
     \<exists>r. reservation (usernameReservation s) = Some r \<and> c = ConfirmUsernameCall r"
  by (cases "reservation (usernameReservation s)"; cases production)
     (auto simp: confirmUsername_def assertDev_def split: prod.splits)

text \<open>
  C6, as the code has it. When the state holds no reservation, \<^verbatim>\<open>confirmUsername\<close> in a
  production build dispatches \<^verbatim>\<open>SET_USERNAME_RESERVATION_ERROR\<close> with \<open>General\<close>, which
  the reducer stores, and makes no remote call; in a build that is not a production
  build \<^verbatim>\<open>assertDev(false, ...)\<close> throws before anything is dispatched or called. In
  every build, every remote call of the thunk is the confirm call for the reservation in
  the state: the remote confirm is invoked only when a reservation is present.
\<close>

theorem confirm_without_reservation:
  "(reservation (usernameReservation s) = None \<longrightarrow>
      confirmUsername True doConfirmUsername s
        = \<lparr>dispatched = [SET_USERNAME_RESERVATION_ERROR (Some General)], calls = [],
           thrown = None\<rparr>
      \<and> error (usernameReservation
           (run_actions True s [SET_USERNAME_RESERVATION_ERROR (Some General)]))
        = Some General
      \<and> confirmUsername False doConfirmUsername s
        = \<lparr>dispatched = [], calls = [],
           thrown = Some (AssertionError ''This should not happen'')\<rparr>)
   \<and> (c \<in> set (calls (confirmUsername production doConfirmUsername s)) \<longrightarrow>
        (\<exists>r. reservation (usernameReservation s) = Some r \<and> c = ConfirmUsernameCall r))"
  using confirm_none_production [of s doConfirmUsername]
        confirm_none_non_production [of s doConfirmUsername]
        set_error_state [of True s "Some General"]
        confirm_call_needs_reservation [of c production doConfirmUsername s]
  by simp

theorem confirm_without_reservation_witness:
  "reservation (usernameReservation open_state) = None
   \<and> confirmUsername True confirm_succeeds open_state
       = \<lparr>dispatched = [SET_USERNAME_RESERVATION_ERROR (Some General)], calls = [],
          thrown = None\<rparr>
   \<and> error (usernameReservation
        (run_actions True open_state [SET_USERNAME_RESERVATION_ERROR (Some General)]))
       = Some General
   \<and> confirmUsername False confirm_succeeds open_state
       = \<lparr>dispatched = [], calls = [],
          thrown = Some (AssertionError ''This should not happen'')\<rparr>
   \<and> ConfirmUsernameCall 7 \<in> set (calls (confirmUsername False confirm_succeeds reserved_state))
   \<and> reservation (usernameReservation reserved_state) = Some 7"
  using confirm_without_reservation
    [where s = open_state and doConfirmUsername = confirm_succeeds and production = False
       and c = "ConfirmUsernameCall 7"]
    confirm_without_reservation
    [where s = reserved_state and doConfirmUsername = confirm_succeeds
       and production = False and c = "ConfirmUsernameCall 7"]
  by (simp add: open_state_def reserved_state_def confirmUsername_def
        confirm_promise_actions_def confirm_succeeds_def reducer_unfold)

text \<open>In a build that is not a production build, \<^verbatim>\<open>confirmUsername\<close> on the open modal
  without a reservation throws: it dispatches nothing, and the error stays unset.\<close>

theorem confirm_without_reservation_counterexample:
  "reservation (usernameReservation open_state) = None
   \<and> confirmUsername False confirm_succeeds open_state
       = \<lparr>dispatched = [], calls = [],
          thrown = Some (AssertionError ''This should not happen'')\<rparr>
   \<and> error (usernameReservation
        (run_actions False open_state
           (dispatched (confirmUsername False confirm_succeeds open_state))))
       = None"
  by (simp add: open_state_def confirmUsername_def assertDev_def)


section \<open>A reserve attempt aborted during its delay\<close>

lemma run_aborted:
  "abortSignal \<in> aborted \<Longrightarrow>
     reserve_run doReserveUsername aborted username nickname abortSignal
       = ([], Fulfilled None)"
  by (simp add: reserve_run_def sleep_def)

lemma reserve_aborted_effects:
  "abortSignal \<in> aborted \<Longrightarrow> nickname \<noteq> [] \<Longrightarrow> isValidNickname nickname \<Longrightarrow>
     reserveUsername production isValidNickname minN maxN doReserveUsername aborted
         abortSignal username nickname
       = \<lparr>dispatched = [RESERVE_USERNAME_PENDING abortSignal,
                        RESERVE_USERNAME_FULFILLED None abortSignal],
          calls = [], thrown = None\<rparr>"
  by (simp add: reserveUsername_def run_aborted reserve_promise_actions_def)

lemma undefined_payload_no_change:
  "store_dispatch production s (RESERVE_USERNAME_FULFILLED None abortSignal) = s"
  by (simp add: store_dispatch_def andThen_def assertDev_def)

lemma pending_aborts_previous:
  "abortController (usernameReservation s) = Some abortSignal \<Longrightarrow>
     reducer production s (RESERVE_USERNAME_PENDING newer)
       = Inr (s\<lparr>usernameReservation :=
                \<lparr>state = Reserving, reservation = None, error = None,
                 abortController = Some newer\<rparr>\<rparr>, [abortSignal])"
  by simp

text \<open>For contrast: when the delay elapses without an abort, the call is issued.\<close>

lemma run_not_aborted:
  "abortSignal \<notin> aborted \<Longrightarrow>
     fst (reserve_run doReserveUsername aborted username nickname abortSignal)
       = [ReserveUsernameCall username nickname abortSignal]"
  by (simp add: reserve_run_def sleep_def)

text \<open>
  C4. When the signal of a reserve attempt is aborted during its delay, \<^verbatim>\<open>run\<close> issues
  no remote call and its promise is fulfilled with \<^verbatim>\<open>undefined\<close>, so that the attempt
  dispatches, after its \<^verbatim>\<open>RESERVE_USERNAME_PENDING\<close>, only
  \<^verbatim>\<open>RESERVE_USERNAME_FULFILLED\<close> with an \<^verbatim>\<open>undefined\<close> payload; and that action leaves
  every state as it is (the token does not match, or the reducer throws). A superseding
  attempt is what aborts: \<^verbatim>\<open>RESERVE_USERNAME_PENDING\<close> calls \<^verbatim>\<open>abort()\<close> on the stored
  controller.
\<close>

theorem aborted_in_delay_no_call:
  "(abortSignal \<in> aborted \<longrightarrow>
      reserve_run doReserveUsername aborted username nickname abortSignal
        = ([], Fulfilled None)
      \<and> (nickname \<noteq> [] \<and> isValidNickname nickname \<longrightarrow>
           reserveUsername production isValidNickname minN maxN doReserveUsername aborted
               abortSignal username nickname
             = \<lparr>dispatched = [RESERVE_USERNAME_PENDING abortSignal,
                              RESERVE_USERNAME_FULFILLED None abortSignal],
                calls = [], thrown = None\<rparr>))
   \<and> store_dispatch production s (RESERVE_USERNAME_FULFILLED None abortSignal) = s
   \<and> (abortController (usernameReservation s) = Some abortSignal \<longrightarrow>
        reducer production s (RESERVE_USERNAME_PENDING newer)
          = Inr (s\<lparr>usernameReservation :=
                   \<lparr>state = Reserving, reservation = None, error = None,
                    abortController = Some newer\<rparr>\<rparr>, [abortSignal]))"
  using run_aborted [of abortSignal aborted doReserveUsername username nickname]
        reserve_aborted_effects [of abortSignal aborted nickname isValidNickname production
          minN maxN doReserveUsername username]
        undefined_payload_no_change [of production s abortSignal]
        pending_aborts_previous [of s abortSignal production newer]
  by blast

lemma abc_valid: "js ''abc'' \<noteq> [] \<and> valid_by_rules (js ''abc'')"
  by (simp add: valid_by_rules_def getNicknameInvalidError_def test_all_nickname_chars
        test_starting_char js_def is_0_9_a_z_underscore_def is_a_z_underscore_def)

theorem aborted_in_delay_no_call_witness:
  "(1::nat) \<in> {1}
   \<and> js ''abc'' \<noteq> []
   \<and> valid_by_rules (js ''abc'')
   \<and> reserve_run reserve_succeeds {1} None (js ''abc'') 1 = ([], Fulfilled None)
   \<and> reserveUsername False valid_by_rules 3 32 reserve_succeeds {1} 1 None (js ''abc'')
       = \<lparr>dispatched = [RESERVE_USERNAME_PENDING 1, RESERVE_USERNAME_FULFILLED None 1],
          calls = [], thrown = None\<rparr>
   \<and> store_dispatch False reserving_state (RESERVE_USERNAME_FULFILLED None 1)
       = reserving_state
   \<and> abortController (usernameReservation reserving_state) = Some 1
   \<and> reducer False reserving_state (RESERVE_USERNAME_PENDING 2)
       = Inr (reserving_state\<lparr>usernameReservation :=
                \<lparr>state = Reserving, reservation = None, error = None,
                 abortController = Some 2\<rparr>\<rparr>, [1])"
  using aborted_in_delay_no_call
    [where abortSignal = 1 and aborted = "{1}" and doReserveUsername = reserve_succeeds
       and username = None and nickname = "js ''abc''" and isValidNickname = valid_by_rules
       and production = False and minN = 3 and maxN = 32 and s = reserving_state
       and newer = 2]
    abc_valid
  by (simp add: reserving_state_def)


section \<open>\<^verbatim>\<open>deleteUsername\<close>\<close>

lemma delete_run_settles:
  "snd (delete_run doDeleteUsername username :: 'r UsernameActionType list \<times> unit settled)
     = Fulfilled ()"
  by (cases "doDeleteUsername username") (simp_all add: delete_run_def)

lemma delete_noop:
  "me_username = None \<or> me_username = Some [] \<Longrightarrow>
   defaultUsername = None \<or> defaultUsername = Some [] \<Longrightarrow>
     deleteUsername doDeleteUsername me_username defaultUsername
       = \<lparr>dispatched = [], calls = [], thrown = None\<rparr>"
  by (auto simp: deleteUsername_def)

lemma delete_effects:
  "(case me_username of Some u \<Rightarrow> Some u | None \<Rightarrow> defaultUsername) = Some username \<Longrightarrow>
   username \<noteq> [] \<Longrightarrow>
     deleteUsername doDeleteUsername me_username defaultUsername
       = \<lparr>dispatched =
            [DELETE_USERNAME_PENDING]
            @ (case doDeleteUsername username of
                 Fulfilled u \<Rightarrow> [] | Rejected \<Rightarrow> [SHOW_TOAST FailedToDeleteUsername])
            @ [DELETE_USERNAME_FULFILLED],
          calls = [DeleteUsernameCall username], thrown = None\<rparr>"
  by (cases "doDeleteUsername username")
     (simp_all add: deleteUsername_def delete_run_def delete_promise_actions_def showToast_def)

lemma delete_dispatched_cases:
  "dispatched (deleteUsername doDeleteUsername me_username defaultUsername) = []
   \<or> dispatched (deleteUsername doDeleteUsername me_username defaultUsername)
       = [DELETE_USERNAME_PENDING, DELETE_USERNAME_FULFILLED]
   \<or> dispatched (deleteUsername doDeleteUsername me_username defaultUsername)
       = [DELETE_USERNAME_PENDING, SHOW_TOAST FailedToDeleteUsername,
          DELETE_USERNAME_FULFILLED]"
proof (cases "case me_username of Some u \<Rightarrow> Some u | None \<Rightarrow> defaultUsername")
  case None
  then show ?thesis by (simp add: deleteUsername_def)
next
  case (Some username)
  show ?thesis
  proof (cases "username = []")
    case True
    with Some show ?thesis by (simp add: deleteUsername_def)
  next
    case False
    show ?thesis
      unfolding delete_effects [OF Some False]
      by (cases "doDeleteUsername username") simp_all
  qed
qed

lemma delete_actions_frame:
  "store_dispatch production s DELETE_USERNAME_PENDING = s\<lparr>editState := Deleting\<rparr>"
  "store_dispatch production s DELETE_USERNAME_FULFILLED = s\<lparr>editState := Editing\<rparr>"
  "store_dispatch production s DELETE_USERNAME_REJECTED = s"
  "store_dispatch production s (SHOW_TOAST t) = s"
  by (simp_all add: store_dispatch_def andThen_def assertDev_def)

lemma delete_dispatched_frame:
  "(a :: 'r UsernameActionType)
     \<in> set (dispatched (deleteUsername doDeleteUsername me_username defaultUsername)) \<Longrightarrow>
     usernameReservation (store_dispatch production s a) = usernameReservation s"
proof -
  let ?acts = "dispatched (deleteUsername doDeleteUsername me_username defaultUsername)
                 :: 'r UsernameActionType list"
  assume mem: "a \<in> set ?acts"
  have "?acts = []
        \<or> ?acts = [DELETE_USERNAME_PENDING, DELETE_USERNAME_FULFILLED]
        \<or> ?acts = [DELETE_USERNAME_PENDING, SHOW_TOAST FailedToDeleteUsername,
                    DELETE_USERNAME_FULFILLED]"
    by (rule delete_dispatched_cases)
  with mem have "a = DELETE_USERNAME_PENDING \<or> a = DELETE_USERNAME_FULFILLED
        \<or> a = SHOW_TOAST FailedToDeleteUsername"
    by auto
  then show ?thesis by (auto simp: delete_actions_frame)
qed

lemma delete_whole_run_frame:
  "usernameReservation
     (run_actions production (s :: 'r UsernameStateType)
        (dispatched (deleteUsername doDeleteUsername me_username defaultUsername)))
   = usernameReservation s"
proof -
  let ?acts = "dispatched (deleteUsername doDeleteUsername me_username defaultUsername)
                 :: 'r UsernameActionType list"
  have "?acts = []
        \<or> ?acts = [DELETE_USERNAME_PENDING, DELETE_USERNAME_FULFILLED]
        \<or> ?acts = [DELETE_USERNAME_PENDING, SHOW_TOAST FailedToDeleteUsername,
                    DELETE_USERNAME_FULFILLED]"
    by (rule delete_dispatched_cases)
  then show ?thesis by (auto simp: delete_actions_frame)
qed

lemma delete_never_dispatches_rejected:
  "(DELETE_USERNAME_REJECTED :: 'r UsernameActionType)
     \<notin> set (dispatched (deleteUsername doDeleteUsername me_username defaultUsername))"
proof -
  let ?acts = "dispatched (deleteUsername doDeleteUsername me_username defaultUsername)
                 :: 'r UsernameActionType list"
  have "?acts = []
        \<or> ?acts = [DELETE_USERNAME_PENDING, DELETE_USERNAME_FULFILLED]
        \<or> ?acts = [DELETE_USERNAME_PENDING, SHOW_TOAST FailedToDeleteUsername,
                    DELETE_USERNAME_FULFILLED]"
    by (rule delete_dispatched_cases)
  then show ?thesis by auto
qed

lemma delete_failure_effects:
  "(case me_username of Some u \<Rightarrow> Some u | None \<Rightarrow> defaultUsername) = Some username \<Longrightarrow>
   username \<noteq> [] \<Longrightarrow> doDeleteUsername username = Rejected \<Longrightarrow>
     deleteUsername doDeleteUsername me_username defaultUsername
       = \<lparr>dispatched = [DELETE_USERNAME_PENDING, SHOW_TOAST FailedToDeleteUsername,
                        DELETE_USERNAME_FULFILLED],
          calls = [DeleteUsernameCall username], thrown = None\<rparr>"
  by (simp add: delete_effects)

text \<open>
  C9. \<^verbatim>\<open>deleteUsername\<close> dispatches nothing and calls nothing when there is no username
  (absent or empty in the session state, and absent or empty as the option for
  testing). Every action it dispatches leaves \<open>usernameReservation\<close> as it is, as does
  the whole run: \<^verbatim>\<open>DELETE_USERNAME_PENDING\<close> and \<^verbatim>\<open>DELETE_USERNAME_FULFILLED\<close> change only
  \<open>editState\<close>, the toast action and \<^verbatim>\<open>DELETE_USERNAME_REJECTED\<close> change nothing. When
  the remote delete fails, the run dispatches the toast \<open>FailedToDeleteUsername\<close>
  between the pending and the fulfilled action.
\<close>

theorem delete_username_frame:
  "((me_username = None \<or> me_username = Some [])
      \<and> (defaultUsername = None \<or> defaultUsername = Some []) \<longrightarrow>
      deleteUsername doDeleteUsername me_username defaultUsername
        = \<lparr>dispatched = [], calls = [], thrown = None\<rparr>)
   \<and> (a \<in> set (dispatched (deleteUsername doDeleteUsername me_username defaultUsername)) \<longrightarrow>
        usernameReservation (store_dispatch production s a) = usernameReservation s)
   \<and> usernameReservation
        (run_actions production s
           (dispatched (deleteUsername doDeleteUsername me_username defaultUsername)))
       = usernameReservation s
   \<and> store_dispatch production s DELETE_USERNAME_PENDING = s\<lparr>editState := Deleting\<rparr>
   \<and> store_dispatch production s DELETE_USERNAME_FULFILLED = s\<lparr>editState := Editing\<rparr>
   \<and> store_dispatch production s (SHOW_TOAST t) = s
   \<and> store_dispatch production s DELETE_USERNAME_REJECTED = s
   \<and> ((case me_username of Some u \<Rightarrow> Some u | None \<Rightarrow> defaultUsername) = Some username
        \<and> username \<noteq> [] \<and> doDeleteUsername username = Rejected \<longrightarrow>
      deleteUsername doDeleteUsername me_username defaultUsername
        = \<lparr>dispatched = [DELETE_USERNAME_PENDING, SHOW_TOAST FailedToDeleteUsername,
                         DELETE_USERNAME_FULFILLED],
           calls = [DeleteUsernameCall username], thrown = None\<rparr>)"
proof (intro conjI impI)
  assume "(me_username = None \<or> me_username = Some [])
      \<and> (defaultUsername = None \<or> defaultUsername = Some [])"
  then show "deleteUsername doDeleteUsername me_username defaultUsername
        = \<lparr>dispatched = [], calls = [], thrown = None\<rparr>"
    by (simp add: delete_noop)
next
  assume "a \<in> set (dispatched (deleteUsername doDeleteUsername me_username defaultUsername))"
  then show "usernameReservation (store_dispatch production s a) = usernameReservation s"
    by (rule delete_dispatched_frame)
next
  show "usernameReservation
        (run_actions production s
           (dispatched (deleteUsername doDeleteUsername me_username defaultUsername)))
       = usernameReservation s"
    by (rule delete_whole_run_frame)
next
  assume "(case me_username of Some u \<Rightarrow> Some u | None \<Rightarrow> defaultUsername) = Some username
        \<and> username \<noteq> [] \<and> doDeleteUsername username = Rejected"
  then show "deleteUsername doDeleteUsername me_username defaultUsername
        = \<lparr>dispatched = [DELETE_USERNAME_PENDING, SHOW_TOAST FailedToDeleteUsername,
                         DELETE_USERNAME_FULFILLED],
           calls = [DeleteUsernameCall username], thrown = None\<rparr>"
    by (simp add: delete_failure_effects)
qed (simp_all add: delete_actions_frame)

theorem delete_username_frame_witness:
  "deleteUsername delete_fails None None
     = (\<lparr>dispatched = [], calls = [], thrown = None\<rparr> :: nat effects)
   \<and> js ''bob'' \<noteq> []
   \<and> delete_fails (js ''bob'') = Rejected
   \<and> deleteUsername delete_fails (Some (js ''bob'')) None
     = (\<lparr>dispatched = [DELETE_USERNAME_PENDING, SHOW_TOAST FailedToDeleteUsername,
                       DELETE_USERNAME_FULFILLED],
         calls = [DeleteUsernameCall (js ''bob'')], thrown = None\<rparr> :: nat effects)
   \<and> usernameReservation
        (run_actions False reserved_state
           [DELETE_USERNAME_PENDING, SHOW_TOAST FailedToDeleteUsername,
            DELETE_USERNAME_FULFILLED])
       = usernameReservation reserved_state
   \<and> usernameReservation
        (store_dispatch False reserved_state (SHOW_TOAST FailedToDeleteUsername))
       = usernameReservation reserved_state"
  using delete_username_frame
    [where me_username = None and defaultUsername = None
       and username = "js ''bob''" and doDeleteUsername = delete_fails
       and s = reserved_state and production = False
       and a = "SHOW_TOAST FailedToDeleteUsername" and t = FailedToDeleteUsername]
    delete_username_frame
    [where me_username = "Some (js ''bob'')" and defaultUsername = None
       and username = "js ''bob''" and doDeleteUsername = delete_fails
       and s = reserved_state and production = False
       and a = "SHOW_TOAST FailedToDeleteUsername" and t = FailedToDeleteUsername]
  by (simp add: js_def delete_fails_def store_dispatch_def reserved_state_def
        deleteUsername_def delete_run_def delete_promise_actions_def showToast_def
        andThen_def assertDev_def)


section \<open>No thunk dispatches \<^verbatim>\<open>DELETE_USERNAME_REJECTED\<close>\<close>

lemma reserve_dispatches:
  "a \<in> set (dispatched
       (reserveUsername production isValidNickname minN maxN doReserveUsername aborted
          newAbortController username nickname)) \<Longrightarrow>
     (\<exists>e. a = SET_USERNAME_RESERVATION_ERROR (Some e))
     \<or> a = RESERVE_USERNAME_PENDING newAbortController
     \<or> (\<exists>payload. a = RESERVE_USERNAME_FULFILLED payload newAbortController)
     \<or> a = RESERVE_USERNAME_REJECTED newAbortController"
  by (cases "nickname = []"; cases "isValidNickname nickname";
      cases "getNicknameInvalidError minN maxN (Some nickname)"; cases production;
      cases "newAbortController \<in> aborted";
      cases "doReserveUsername username nickname newAbortController")
     (auto simp: reserveUsername_def setUsernameReservationError_def
        assertDev_def reserve_run_def sleep_def reserve_promise_actions_def)

lemma confirm_dispatches:
  "a \<in> set (dispatched (confirmUsername production doConfirmUsername s)) \<Longrightarrow>
     a = SET_USERNAME_RESERVATION_ERROR (Some General)
     \<or> a = CONFIRM_USERNAME_PENDING \<or> a = CONFIRM_USERNAME_FULFILLED
     \<or> a = CONFIRM_USERNAME_REJECTED"
  by (cases "reservation (usernameReservation s)"; cases production;
      cases "state (usernameReservation s) = Open";
      cases "doConfirmUsername (the (reservation (usernameReservation s)))")
     (auto simp: confirmUsername_def setUsernameReservationError_def andThen_def
        assertDev_def confirm_promise_actions_def)

text \<open>
  C10. The promise of \<^verbatim>\<open>run\<close> in \<^verbatim>\<open>deleteUsername\<close> is fulfilled however the remote
  delete settles (a failure is caught and becomes the toast), so the run never
  dispatches \<^verbatim>\<open>DELETE_USERNAME_REJECTED\<close>; nor does \<^verbatim>\<open>reserveUsername\<close>,
  \<^verbatim>\<open>confirmUsername\<close> or a plain action creator of the duck. The reducer's branch for
  that action, and the assertion in it, are never reached by the duck's own actions.
\<close>

theorem delete_promise_never_rejects:
  "snd (delete_run doDeleteUsername username :: 'r UsernameActionType list \<times> unit settled)
     = Fulfilled ()
   \<and> (DELETE_USERNAME_REJECTED :: 'r UsernameActionType)
       \<notin> set (dispatched (deleteUsername doDeleteUsername me_username defaultUsername))
   \<and> (DELETE_USERNAME_REJECTED :: 'r UsernameActionType)
       \<notin> set (dispatched
             (reserveUsername production isValidNickname minN maxN doReserveUsername
                aborted newAbortController me_username nickname))
   \<and> (DELETE_USERNAME_REJECTED :: 'r UsernameActionType)
       \<notin> set (dispatched (confirmUsername production doConfirmUsername s))
   \<and> (setUsernameEditState editing :: 'r UsernameActionType) \<noteq> DELETE_USERNAME_REJECTED
   \<and> (openUsernameReservationModal :: 'r UsernameActionType) \<noteq> DELETE_USERNAME_REJECTED
   \<and> (closeUsernameReservationModal :: 'r UsernameActionType) \<noteq> DELETE_USERNAME_REJECTED
   \<and> (setUsernameReservationError err :: 'r UsernameActionType) \<noteq> DELETE_USERNAME_REJECTED"
proof -
  have "(DELETE_USERNAME_REJECTED :: 'r UsernameActionType)
       \<notin> set (dispatched
             (reserveUsername production isValidNickname minN maxN doReserveUsername
                aborted newAbortController me_username nickname))"
    using reserve_dispatches by fastforce
  moreover have "(DELETE_USERNAME_REJECTED :: 'r UsernameActionType)
       \<notin> set (dispatched (confirmUsername production doConfirmUsername s))"
    using confirm_dispatches by fastforce
  ultimately show ?thesis
    by (simp add: delete_run_settles delete_never_dispatches_rejected
          setUsernameEditState_def openUsernameReservationModal_def
          closeUsernameReservationModal_def setUsernameReservationError_def)
qed

theorem delete_promise_never_rejects_witness:
  "snd (delete_run delete_fails (js ''bob'') :: nat UsernameActionType list \<times> unit settled)
     = Fulfilled ()
   \<and> dispatched (deleteUsername delete_fails (Some (js ''bob'')) None :: nat effects)
       = [DELETE_USERNAME_PENDING, SHOW_TOAST FailedToDeleteUsername,
          DELETE_USERNAME_FULFILLED]
   \<and> (DELETE_USERNAME_REJECTED :: nat UsernameActionType)
       \<notin> set (dispatched (deleteUsername delete_fails (Some (js ''bob'')) None))
   \<and> dispatched
        (reserveUsername False valid_by_rules 3 32 reserve_succeeds {} 1 None (js ''abc''))
       = [RESERVE_USERNAME_PENDING 1, RESERVE_USERNAME_FULFILLED (Some (Ok 7)) 1]
   \<and> dispatched (confirmUsername False confirm_succeeds reserved_state)
       = [CONFIRM_USERNAME_PENDING, CONFIRM_USERNAME_FULFILLED]"
  using delete_promise_never_rejects
    [where doDeleteUsername = delete_fails and username = "js ''bob''"
       and me_username = "Some (js ''bob'')" and defaultUsername = None
       and production = False and isValidNickname = valid_by_rules and minN = 3
       and maxN = 32 and doReserveUsername = reserve_succeeds and aborted = "{}"
       and newAbortController = 1 and nickname = "js ''abc''"
       and doConfirmUsername = confirm_succeeds and s = reserved_state
       and editing = Editing and err = None]
    abc_valid
  by (simp add: js_def delete_run_def delete_fails_def deleteUsername_def
        delete_promise_actions_def showToast_def reserveUsername_def reserve_run_def
        sleep_def reserve_promise_actions_def reserve_succeeds_def confirmUsername_def
        confirm_promise_actions_def confirm_succeeds_def reserved_state_def
        andThen_def assertDev_def)

end
